theory Spec2Isabelle
  imports Main "HOL-Library.Sublist"
begin

section \<open>Values, tensors and the computation graph\<close>

text \<open>
  The module \<open>tfsnippet/distributions/utils.py\<close> builds nodes of a TensorFlow graph.
  A tensor is modelled by the expression that computes it (its dataflow). The ambient
  graph is modelled by the list of the nodes inserted so far, each with the name scope it
  was inserted under, by the name scope that is open (the graph's name stack, a path such
  as \<open>outer/inner\<close>, empty at the root), and by the names the graph has recorded as in
  use, with the number of times each was asked for.
\<close>

datatype ndarray = Num int | BoolV bool | Arr "ndarray list"

datatype dtype = DT_int32 | DT_int64 | DT_float32 | DT_float64 | DT_bool | DT_string

fun is_integer :: "dtype \<Rightarrow> bool" where
  "is_integer DT_int32 = True"
| "is_integer DT_int64 = True"
| "is_integer _ = False"

text \<open>
  Construction-time failures (Python exceptions) and execution-time failures.
  \<open>InvalidArgument\<close> is the failure of the validator, \<open>ValueError\<close> the one TensorFlow
  raises for a scope name it does not accept.
\<close>

datatype error = InvalidArgument | ValueError | TypeError | OperationError string

datatype exec_error = RuntimeAssertionViolated | Unfed string | ExecTypeError | OpExecError string

type_synonym opsem = "ndarray \<Rightarrow> ndarray \<Rightarrow> exec_error + ndarray"

datatype texpr =
    Constant ndarray
  | Placeholder string
  | Negate texpr
  | Greater texpr texpr
  | RangeT texpr texpr
  | Cond texpr texpr texpr
  | AssertNonNegative texpr
  | OpNode opsem texpr texpr

type_synonym node = "string \<times> string"

record graph =
  nodes :: "node list"
  name_stack :: string
  names_in_use :: "(string \<times> nat) list"

definition empty_graph :: graph where
  "empty_graph = \<lparr>nodes = [], name_stack = [], names_in_use = []\<rparr>"

definition add_node :: "string \<Rightarrow> graph \<Rightarrow> graph" where
  "add_node kind g = g\<lparr>nodes := nodes g @ [(name_stack g, kind)]\<rparr>"

text \<open>A graph-building computation: a result or an exception, and the graph after it.\<close>

type_synonym 'a build = "graph \<Rightarrow> (error + 'a) \<times> graph"

subsection \<open>Name scopes of TensorFlow\<close>

text \<open>
  \<open>Graph.name_scope\<close> accepts a scope name that matches
  \<open>^[A-Za-z0-9.][A-Za-z0-9_.\-/]*$\<close> when it is opened at the root, and
  \<open>^[A-Za-z0-9_.\-/]*$\<close> when it is opened inside another scope. In Python \<open>$\<close> also
  matches before a newline that ends the string.
\<close>

definition letters_and_digits :: string where
  "letters_and_digits = ''ABCDEFGHIJKLMNOPQRSTUVWXYZabcdefghijklmnopqrstuvwxyz0123456789''"

definition name_first :: "char \<Rightarrow> bool" where
  "name_first c \<longleftrightarrow> c \<in> set (letters_and_digits @ ''.'')"

definition name_rest :: "char \<Rightarrow> bool" where
  "name_rest c \<longleftrightarrow> c \<in> set (letters_and_digits @ ''_.-/'')"

definition strip_newline :: "string \<Rightarrow> string" where
  "strip_newline s = (if s \<noteq> [] \<and> last s = CHR 0x0A then butlast s else s)"

definition valid_op_name :: "string \<Rightarrow> bool" where
  "valid_op_name s =
     (case strip_newline s of [] \<Rightarrow> False | c # cs \<Rightarrow> name_first c \<and> list_all name_rest cs)"

definition valid_scope_name :: "string \<Rightarrow> bool" where
  "valid_scope_name s = list_all name_rest (strip_newline s)"

text \<open>Python's \<open>str.lower\<close> on such names, and \<open>"%s_%d" % (s, i)\<close>.\<close>

definition lower_char :: "char \<Rightarrow> char" where
  "lower_char c =
     (case map_of (zip ''ABCDEFGHIJKLMNOPQRSTUVWXYZ'' ''abcdefghijklmnopqrstuvwxyz'') c of
        None \<Rightarrow> c | Some l \<Rightarrow> l)"

definition lower :: "string \<Rightarrow> string" where
  "lower s = map lower_char s"

definition digit :: "nat \<Rightarrow> char" where
  "digit n = ''0123456789'' ! n"

fun decimal :: "nat \<Rightarrow> string" where
  "decimal n = (if n < 10 then [digit n] else decimal (n div 10) @ [digit (n mod 10)])"

declare decimal.simps [simp del]

definition numbered :: "string \<Rightarrow> nat \<Rightarrow> string" where
  "numbered s i = s @ ''_'' @ decimal i"

text \<open>A name inside the scope that is open.\<close>

definition qualify :: "string \<Rightarrow> string \<Rightarrow> string" where
  "qualify stack n = (if stack = [] then n else stack @ ''/'' @ n)"

text \<open>
  The loop of \<open>Graph.unique_name\<close>: the first index from \<open>i\<close> on whose numbered name is
  not in use. It ends because the names in use are finitely many.
\<close>

function find_free :: "(string \<times> nat) list \<Rightarrow> string \<Rightarrow> nat \<Rightarrow> nat" where
  "find_free m base i =
     (if numbered base i \<in> fst ` set m then find_free m base (Suc i) else i)"
  by pat_completeness auto
termination
proof (relation "measure (\<lambda>(m, base, i). card {k. i \<le> k \<and> numbered base k \<in> fst ` set m})")
  show "wf (measure (\<lambda>(m, base, i). card {k. i \<le> k \<and> numbered base k \<in> fst ` set m}))"
    by simp
next
  fix m :: "(string \<times> nat) list" and base :: string and i :: nat
  assume used: "numbered base i \<in> fst ` set m"
  have digit_inj: "digit a = digit b \<Longrightarrow> a = b" if "a < 10" "b < 10" for a b
  proof -
    from that have "a \<in> {0,1,2,3,4,5,6,7,8,9}" "b \<in> {0,1,2,3,4,5,6,7,8,9}" by auto
    then show "digit a = digit b \<Longrightarrow> a = b"
      by (auto simp: digit_def)
  qed
  have dec_last: "decimal a \<noteq> [] \<and> last (decimal a) = digit (a mod 10)" for a
    by (subst decimal.simps, subst (2) decimal.simps) simp
  have dec_len: "length (decimal a) = 1 \<longleftrightarrow> a < 10" for a
  proof
    assume "length (decimal a) = 1"
    then show "a < 10"
      using dec_last [of "a div 10"]
      by (subst (asm) decimal.simps) (auto split: if_splits)
  next
    assume "a < 10"
    then show "length (decimal a) = 1" by (subst decimal.simps) simp
  qed
  have dec_inj: "decimal a = decimal b \<Longrightarrow> a = b" for a b
  proof (induction a arbitrary: b rule: less_induct)
    case (less a)
    show ?case
    proof (cases "a < 10")
      case True
      with less.prems dec_len [of a] dec_len [of b] have "b < 10" by simp
      with True less.prems show ?thesis
        by (subst (asm) decimal.simps, subst (asm) (2) decimal.simps) (simp add: digit_inj)
    next
      case False
      with less.prems dec_len [of a] dec_len [of b] have b: "\<not> b < 10" by simp
      from False b less.prems
      have eq: "decimal (a div 10) @ [digit (a mod 10)] = decimal (b div 10) @ [digit (b mod 10)]"
        by (subst (asm) decimal.simps, subst (asm) (2) decimal.simps) simp
      then have "decimal (a div 10) = decimal (b div 10)" "digit (a mod 10) = digit (b mod 10)"
        by simp_all
      moreover from False have "a div 10 < a" by simp
      ultimately have "a div 10 = b div 10" "a mod 10 = b mod 10"
        using less.IH [of "a div 10" "b div 10"] by (simp_all add: digit_inj)
      then show ?thesis
        by (metis div_mult_mod_eq)
    qed
  qed
  have "inj (numbered base)"
    by (rule injI) (simp add: numbered_def dec_inj)
  then have fin: "finite {k. numbered base k \<in> fst ` set m}"
    using finite_vimageI [of "fst ` set m" "numbered base"] by (simp add: vimage_def)
  have "i \<in> {k. i \<le> k \<and> numbered base k \<in> fst ` set m}"
    "i \<notin> {k. Suc i \<le> k \<and> numbered base k \<in> fst ` set m}"
    using used by simp_all
  moreover have "{k. Suc i \<le> k \<and> numbered base k \<in> fst ` set m} \<subseteq>
        {k. i \<le> k \<and> numbered base k \<in> fst ` set m}"
    by auto
  ultimately have "{k. Suc i \<le> k \<and> numbered base k \<in> fst ` set m} \<subset>
        {k. i \<le> k \<and> numbered base k \<in> fst ` set m}"
    by blast
  moreover have "finite {k. i \<le> k \<and> numbered base k \<in> fst ` set m}"
    using fin by simp
  ultimately have "card {k. Suc i \<le> k \<and> numbered base k \<in> fst ` set m} <
        card {k. i \<le> k \<and> numbered base k \<in> fst ` set m}"
    by (rule psubset_card_mono [rotated])
  then show "((m, base, Suc i), (m, base, i)) \<in>
      measure (\<lambda>(m, base, i). card {k. i \<le> k \<and> numbered base k \<in> fst ` set m})"
    by simp
qed

declare find_free.simps [simp del]

text \<open>
  \<open>Graph.unique_name(name)\<close>: the name is put inside the open scope; names in use are
  compared in lower case; a name asked for the first time is kept, a name in use gets the
  first free number; the names handed out are recorded as in use. (TensorFlow records the
  names of the ops as well; the model records the names asked for as scopes.)
\<close>

definition unique_name :: "string \<Rightarrow> graph \<Rightarrow> string \<times> graph" where
  "unique_name n g =
     (let name = qualify (name_stack g) n;
          key = lower name;
          i = (case map_of (names_in_use g) key of None \<Rightarrow> 0 | Some k \<Rightarrow> k);
          m = (key, Suc i) # names_in_use g
      in if 0 < i
         then (let j = find_free m key i
               in (numbered name j, g\<lparr>names_in_use := (numbered key j, 1) # m\<rparr>))
         else (name, g\<lparr>names_in_use := m\<rparr>))"

text \<open>
  \<open>Graph.name_scope(name)\<close> raises \<open>ValueError\<close> for a name that is not empty and does
  not match the pattern. Otherwise the empty name opens the root scope, a name that ends
  in \<open>/\<close> opens the scope of that very path, not nested and not made unique, and any
  other name opens \<open>unique_name(name)\<close>.
\<close>

definition rejects_scope :: "string \<Rightarrow> graph \<Rightarrow> bool" where
  "rejects_scope n g \<longleftrightarrow>
     n \<noteq> [] \<and> \<not> (if name_stack g \<noteq> [] then valid_scope_name n else valid_op_name n)"

definition enter_scope :: "string \<Rightarrow> graph \<Rightarrow> graph" where
  "enter_scope n g =
     (if n = [] then g\<lparr>name_stack := []\<rparr>
      else if last n = CHR ''/'' then g\<lparr>name_stack := butlast n\<rparr>
      else (let (s, g') = unique_name n g in g'\<lparr>name_stack := s\<rparr>))"

text \<open>The name \<open>tf.name_scope(name, default_name=d)\<close> opens: \<open>d\<close> when \<open>name\<close> is \<open>None\<close>.\<close>

definition scope_name :: "string option \<Rightarrow> string \<Rightarrow> string" where
  "scope_name name default_name = (case name of None \<Rightarrow> default_name | Some n \<Rightarrow> n)"

text \<open>
  \<open>with tf.name_scope(name, default_name=d): body\<close>: the scope is opened, or
  \<open>ValueError\<close> is raised and the body does not run; the scope that was open before is
  open again when the block is left, by a return or by an exception.
\<close>

definition tf_name_scope :: "string option \<Rightarrow> string \<Rightarrow> 'a build \<Rightarrow> 'a build" where
  "tf_name_scope name default_name body g =
     (let n = scope_name name default_name
      in if rejects_scope n g then (Inl ValueError, g)
         else (let (r, g') = body (enter_scope n g)
               in (r, g'\<lparr>name_stack := name_stack g\<rparr>)))"

subsection \<open>Execution of a tensor\<close>

type_synonym feed = "string \<Rightarrow> ndarray option"

fun eval :: "feed \<Rightarrow> texpr \<Rightarrow> exec_error + ndarray" where
  "eval env (Constant v) = Inr v"
| "eval env (Placeholder x) = (case env x of None \<Rightarrow> Inl (Unfed x) | Some v \<Rightarrow> Inr v)"
| "eval env (Negate t) =
     (case eval env t of
        Inl e \<Rightarrow> Inl e
      | Inr (Num i) \<Rightarrow> Inr (Num (- i))
      | Inr _ \<Rightarrow> Inl ExecTypeError)"
| "eval env (Greater a b) =
     (case eval env a of
        Inl e \<Rightarrow> Inl e
      | Inr (Num i) \<Rightarrow>
          (case eval env b of
             Inl e \<Rightarrow> Inl e
           | Inr (Num j) \<Rightarrow> Inr (BoolV (i > j))
           | Inr _ \<Rightarrow> Inl ExecTypeError)
      | Inr _ \<Rightarrow> Inl ExecTypeError)"
| "eval env (RangeT a b) =
     (case eval env a of
        Inl e \<Rightarrow> Inl e
      | Inr (Num i) \<Rightarrow>
          (case eval env b of
             Inl e \<Rightarrow> Inl e
           | Inr (Num j) \<Rightarrow> Inr (Arr (map Num [i..j - 1]))
           | Inr _ \<Rightarrow> Inl ExecTypeError)
      | Inr _ \<Rightarrow> Inl ExecTypeError)"
| "eval env (Cond p a b) =
     (case eval env p of
        Inl e \<Rightarrow> Inl e
      | Inr (BoolV c) \<Rightarrow> (if c then eval env a else eval env b)
      | Inr _ \<Rightarrow> Inl ExecTypeError)"
| "eval env (AssertNonNegative t) =
     (case eval env t of
        Inl e \<Rightarrow> Inl e
      | Inr (Num i) \<Rightarrow> (if 0 \<le> i then Inr (Num i) else Inl RuntimeAssertionViolated)
      | Inr _ \<Rightarrow> Inl ExecTypeError)"
| "eval env (OpNode f t ax) =
     (case eval env t of
        Inl e \<Rightarrow> Inl e
      | Inr v \<Rightarrow> (case eval env ax of Inl e \<Rightarrow> Inl e | Inr a \<Rightarrow> f v a))"

subsection \<open>Sequencing of graph-building steps\<close>

definition ret :: "'a \<Rightarrow> 'a build" where
  "ret x g = (Inr x, g)"

definition raise :: "error \<Rightarrow> 'a build" where
  "raise e g = (Inl e, g)"

text \<open>Run \<open>m\<close>, then \<open>f\<close> on its result; an exception of \<open>m\<close> skips \<open>f\<close>.\<close>

definition then_do :: "'a build \<Rightarrow> ('a \<Rightarrow> 'b build) \<Rightarrow> 'b build" where
  "then_do m f g = (case m g of (Inl e, g') \<Rightarrow> (Inl e, g') | (Inr x, g') \<Rightarrow> f x g')"

subsection \<open>The count argument\<close>

text \<open>
  \<open>group_ndims\<close> is a Python object or a \<open>tf.Tensor\<close>. A concrete object is an integer
  or a value that is not an integer (a float with a fractional part, a string, \<open>None\<close>),
  kept by its \<open>repr\<close>; a tensor has its declared dtype and the expression computing it.
\<close>

datatype pyvalue = PyInt int | PyNonIntegral string

datatype count = Concrete pyvalue | Symbolic dtype texpr

subsection \<open>The TensorFlow primitives the module calls\<close>

text \<open>
  Each primitive inserts its node under the scopes that are open and returns the tensor
  of its output. The node of a primitive stands for all the nodes TensorFlow inserts for
  it (the constants of its Python arguments included).
\<close>

definition tf_greater :: "texpr \<Rightarrow> texpr \<Rightarrow> texpr build" where
  "tf_greater a b g = (Inr (Greater a b), add_node ''Greater'' g)"

definition tf_negative :: "texpr \<Rightarrow> texpr build" where
  "tf_negative t g = (Inr (Negate t), add_node ''Neg'' g)"

definition tf_range :: "texpr \<Rightarrow> texpr \<Rightarrow> texpr build" where
  "tf_range start limit g = (Inr (RangeT start limit), add_node ''range'' g)"

text \<open>
  \<open>tf.cond(pred, true_fn, false_fn)\<close> in graph mode: under the scope \<open>cond\<close>, the switch
  on \<open>pred\<close> is inserted, \<open>true_fn\<close> and then \<open>false_fn\<close> are both called, once each, to
  build their branches, and the merge of the two outputs is inserted. An exception of a
  branch function leaves \<open>tf.cond\<close>.
\<close>

definition tf_cond :: "texpr \<Rightarrow> texpr build \<Rightarrow> texpr build \<Rightarrow> texpr build" where
  "tf_cond pred true_fn false_fn =
     tf_name_scope None ''cond''
       (\<lambda>g. then_do true_fn (\<lambda>t. then_do false_fn (\<lambda>f g'. (Inr (Cond pred t f), add_node ''Merge'' g')))
               (add_node ''Switch'' g))"

text \<open>Python's \<open>-x\<close> and the conversion of a Python argument to a tensor.\<close>

fun py_neg :: "count \<Rightarrow> count build" where
  "py_neg (Concrete (PyInt i)) = ret (Concrete (PyInt (- i)))"
| "py_neg (Concrete (PyNonIntegral s)) = raise TypeError"
| "py_neg (Symbolic dt t) = then_do (tf_negative t) (\<lambda>n. ret (Symbolic dt n))"

text \<open>The truth value of \<open>x > 0\<close> in an \<open>if\<close>; a tensor is not a Python truth value.\<close>

fun py_gt_zero :: "count \<Rightarrow> bool build" where
  "py_gt_zero (Concrete (PyInt i)) = ret (i > 0)"
| "py_gt_zero (Concrete (PyNonIntegral s)) = raise TypeError"
| "py_gt_zero (Symbolic dt t) = raise TypeError"

fun convert_to_tensor :: "count \<Rightarrow> texpr build" where
  "convert_to_tensor (Concrete (PyInt i)) = ret (Constant (Num i))"
| "convert_to_tensor (Concrete (PyNonIntegral s)) = raise TypeError"
| "convert_to_tensor (Symbolic dt t) = ret t"

subsection \<open>The helpers of \<open>tfsnippet.utils\<close>\<close>

text \<open>
  Modelled from the spec: \<open>is_tensor_object\<close> of \<open>tfsnippet.utils\<close>, which is not among
  the sources. A count is symbolic exactly when it is a tensor.
\<close>

fun is_tensor_object :: "count \<Rightarrow> bool" where
  "is_tensor_object (Symbolic dt t) = True"
| "is_tensor_object (Concrete v) = False"

text \<open>
  Modelled from the spec: the class \<open>TensorArgValidator\<close> of \<open>tfsnippet.utils\<close> and its
  methods \<open>require_int32\<close> and \<open>require_non_negative\<close>, which are not among the sources.
  A concrete count fails with \<open>InvalidArgument\<close> if it is non-integral or negative and is
  returned unchanged otherwise. A symbolic count fails at once with \<open>InvalidArgument\<close> if
  its declared type is not integer-compatible; otherwise a non-negativity assertion is
  inserted into the graph, and the returned tensor runs it when it is executed.
\<close>

record validator =
  arg_name :: string

definition TensorArgValidator :: "string \<Rightarrow> validator" where
  "TensorArgValidator n = \<lparr>arg_name = n\<rparr>"

fun require_int32 :: "validator \<Rightarrow> count \<Rightarrow> count build" where
  "require_int32 v (Concrete (PyInt i)) = ret (Concrete (PyInt i))"
| "require_int32 v (Concrete (PyNonIntegral s)) = raise InvalidArgument"
| "require_int32 v (Symbolic dt t) =
     (if is_integer dt then ret (Symbolic dt t) else raise InvalidArgument)"

fun require_non_negative :: "validator \<Rightarrow> count \<Rightarrow> count build" where
  "require_non_negative v (Concrete (PyInt i)) =
     (if i < 0 then raise InvalidArgument else ret (Concrete (PyInt i)))"
| "require_non_negative v (Concrete (PyNonIntegral s)) = raise InvalidArgument"
| "require_non_negative v (Symbolic dt t) =
     (\<lambda>g. (Inr (Symbolic dt (AssertNonNegative t)), add_node ''assert_non_negative'' g))"

section \<open>The module \<open>tfsnippet/distributions/utils.py\<close>\<close>

text \<open>
  \<open>operation\<close> is the caller's callable: given the tensor and the axis tensor it builds
  its nodes and returns its output tensor, or raises.
\<close>

type_synonym operation = "texpr \<Rightarrow> texpr \<Rightarrow> texpr build"

text \<open>The context manager local to \<open>validate_group_ndims\<close>.\<close>

definition gen_name_scope :: "count \<Rightarrow> string option \<Rightarrow> 'a build \<Rightarrow> 'a build" where
  "gen_name_scope group_ndims name body =
     (if is_tensor_object group_ndims
      then tf_name_scope name ''validate_group_ndims'' body
      else body)"

definition validate_group_ndims :: "count \<Rightarrow> string option \<Rightarrow> count build" where
  "validate_group_ndims group_ndims name =
     gen_name_scope group_ndims name
       (let validator = TensorArgValidator ''group_ndims''
        in then_do (require_int32 validator group_ndims) (require_non_negative validator))"

definition reduce_group_ndims ::
  "operation \<Rightarrow> texpr \<Rightarrow> count \<Rightarrow> string option \<Rightarrow> texpr build" where
  "reduce_group_ndims operation tensor group_ndims name =
     then_do (validate_group_ndims group_ndims None) (\<lambda>group_ndims.
       tf_name_scope name ''reduce_group_ndims''
         (if is_tensor_object group_ndims
          then
            then_do (convert_to_tensor group_ndims) (\<lambda>gn.
            then_do (tf_greater gn (Constant (Num 0))) (\<lambda>pred.
              tf_cond pred
                (then_do (py_neg group_ndims) (\<lambda>n.
                 then_do (convert_to_tensor n) (\<lambda>start.
                 then_do (tf_range start (Constant (Num 0))) (\<lambda>axis.
                   operation tensor axis))))
                (ret tensor)))
          else
            then_do (py_gt_zero group_ndims) (\<lambda>positive.
              if positive
              then
                then_do (py_neg group_ndims) (\<lambda>n.
                then_do (convert_to_tensor n) (\<lambda>start.
                then_do (tf_range start (Constant (Num 0))) (\<lambda>axis.
                  operation tensor axis)))
              else ret tensor)))"

section \<open>Reductions of TensorFlow, as operations to pass\<close>

text \<open>
  \<open>tf.reduce_sum\<close> and \<open>tf.reduce_prod\<close>, the operations the docstring of
  \<open>reduce_group_ndims\<close> names, on rectangular arrays of integers. An axis \<open>i\<close> of an
  array of rank \<open>r\<close> is valid when \<open>-r \<le> i < r\<close>; a negative axis counts from the last.
\<close>

fun rank :: "ndarray \<Rightarrow> nat" where
  "rank (Num i) = 0"
| "rank (BoolV b) = 0"
| "rank (Arr []) = 1"
| "rank (Arr (x # xs)) = Suc (rank x)"

fun zip_with :: "(int \<Rightarrow> int \<Rightarrow> int) \<Rightarrow> ndarray \<Rightarrow> ndarray \<Rightarrow> ndarray"
  and zip_with_list :: "(int \<Rightarrow> int \<Rightarrow> int) \<Rightarrow> ndarray list \<Rightarrow> ndarray list \<Rightarrow> ndarray list" where
  "zip_with f (Num a) (Num b) = Num (f a b)"
| "zip_with f (Arr xs) (Arr ys) = Arr (zip_with_list f xs ys)"
| "zip_with f x y = x"
| "zip_with_list f (x # xs) (y # ys) = zip_with f x y # zip_with_list f xs ys"
| "zip_with_list f xs ys = []"

fun combine_all :: "(int \<Rightarrow> int \<Rightarrow> int) \<Rightarrow> int \<Rightarrow> ndarray list \<Rightarrow> ndarray" where
  "combine_all f u [] = Num u"
| "combine_all f u (y # ys) = foldl (zip_with f) y ys"

text \<open>Reduce the dimensions listed in \<open>dims\<close>; \<open>d\<close> is the dimension of the array at hand.\<close>

fun reduce_dims :: "(int \<Rightarrow> int \<Rightarrow> int) \<Rightarrow> int \<Rightarrow> nat list \<Rightarrow> nat \<Rightarrow> ndarray \<Rightarrow> ndarray" where
  "reduce_dims f u dims d (Arr xs) =
     (let ys = map (reduce_dims f u dims (Suc d)) xs
      in if d \<in> set dims then combine_all f u ys else Arr ys)"
| "reduce_dims f u dims d x = x"

fun axis_list :: "ndarray \<Rightarrow> int list option" where
  "axis_list (Num i) = Some [i]"
| "axis_list (BoolV b) = None"
| "axis_list (Arr []) = Some []"
| "axis_list (Arr (Num i # xs)) =
     (case axis_list (Arr xs) of None \<Rightarrow> None | Some is \<Rightarrow> Some (i # is))"
| "axis_list (Arr (x # xs)) = None"

definition valid_axis :: "nat \<Rightarrow> int \<Rightarrow> bool" where
  "valid_axis r i \<longleftrightarrow> - int r \<le> i \<and> i < int r"

definition normalize_axis :: "nat \<Rightarrow> int \<Rightarrow> nat" where
  "normalize_axis r i = nat (if i < 0 then i + int r else i)"

definition reduce_sem :: "(int \<Rightarrow> int \<Rightarrow> int) \<Rightarrow> int \<Rightarrow> opsem" where
  "reduce_sem f u v ax =
     (case axis_list ax of
        None \<Rightarrow> Inl ExecTypeError
      | Some axes \<Rightarrow>
          if list_all (valid_axis (rank v)) axes
          then Inr (reduce_dims f u (map (normalize_axis (rank v)) axes) 0 v)
          else Inl (OpExecError ''Invalid reduction dimension''))"

definition tf_reduce_sum :: operation where
  "tf_reduce_sum tensor axis g = (Inr (OpNode (reduce_sem (+) 0) tensor axis), add_node ''Sum'' g)"

definition tf_reduce_prod :: operation where
  "tf_reduce_prod tensor axis g = (Inr (OpNode (reduce_sem (*) 1) tensor axis), add_node ''Prod'' g)"

section \<open>Notions used to state the properties\<close>

text \<open>A concrete count that passes validation: an integer that is not negative.\<close>

fun non_negative_integer :: "pyvalue \<Rightarrow> bool" where
  "non_negative_integer (PyInt i) = (0 \<le> i)"
| "non_negative_integer (PyNonIntegral s) = False"

text \<open>
  The output of an operation computes \<open>f\<close> of the values of its two inputs, whenever
  the graph is executed.
\<close>

definition implements :: "operation \<Rightarrow> opsem \<Rightarrow> bool" where
  "implements operation f \<longleftrightarrow>
     (\<forall>t ax g r g' env. operation t ax g = (Inr r, g') \<longrightarrow> eval env r = eval env (OpNode f t ax))"

text \<open>
  The path \<open>p\<close> lies within the scope \<open>s\<close>: it is \<open>s\<close> or continues \<open>s/\<close>. Every path
  lies within the root, the empty scope. A node lies under a scope when its path does.
\<close>

definition within :: "string \<Rightarrow> string \<Rightarrow> bool" where
  "within s p \<longleftrightarrow> s = [] \<or> p = s \<or> prefix (s @ ''/'') p"

definition under_scope :: "string \<Rightarrow> node \<Rightarrow> bool" where
  "under_scope s n \<longleftrightarrow> within s (fst n)"

text \<open>
  An operation that behaves as a TensorFlow op does with respect to the graph: it keeps
  the nodes that exist, inserts its own under the scope that is open, and leaves that
  scope open.
\<close>

definition scoped :: "operation \<Rightarrow> bool" where
  "scoped operation \<longleftrightarrow>
     (\<forall>t ax g. name_stack (snd (operation t ax g)) = name_stack g \<and>
        (\<exists>new. nodes (snd (operation t ax g)) = nodes g @ new \<and>
               list_all (under_scope (name_stack g)) new))"

text \<open>
  The graph after the validation, called with no name, of a symbolic count of an integer
  type: the scope of the validation has been opened, the assertion inserted, and the
  scope closed.
\<close>

definition validated_graph :: "graph \<Rightarrow> graph" where
  "validated_graph gr =
     (add_node ''assert_non_negative'' (enter_scope ''validate_group_ndims'' gr))
       \<lparr>name_stack := name_stack gr\<rparr>"

text \<open>
  The graph in which \<open>reduce_group_ndims\<close> calls the operation for a symbolic count,
  while \<open>tf.cond\<close> builds its true branch: after the validation the scope of the function
  has been opened, the comparison inserted, the scope \<open>cond\<close> opened, and the switch, the
  negation and the range inserted.
\<close>

definition call_graph :: "string option \<Rightarrow> graph \<Rightarrow> graph" where
  "call_graph name gr =
     add_node ''range'' (add_node ''Neg'' (add_node ''Switch''
       (enter_scope ''cond'' (add_node ''Greater''
          (enter_scope (scope_name name ''reduce_group_ndims'') (validated_graph gr))))))"

section \<open>What the two functions compute, case by case\<close>

lemmas build_defs = ret_def raise_def then_do_def tf_name_scope_def
  gen_name_scope_def validate_group_ndims_def TensorArgValidator_def

lemmas name_defs = valid_op_name_def valid_scope_name_def strip_newline_def name_first_def
  name_rest_def letters_and_digits_def

lemma default_names_accepted [simp]:
  "\<not> rejects_scope ''validate_group_ndims'' g"
  "\<not> rejects_scope ''reduce_group_ndims'' g"
  "\<not> rejects_scope ''cond'' g"
  by (simp_all add: rejects_scope_def name_defs)

lemma empty_graph_simps [simp]:
  "nodes empty_graph = []" "name_stack empty_graph = []" "names_in_use empty_graph = []"
  by (simp_all add: empty_graph_def)

lemma rejects_scope_cong: "name_stack g = name_stack g' \<Longrightarrow> rejects_scope n g = rejects_scope n g'"
  by (simp add: rejects_scope_def)

lemma add_node_simps [simp]:
  "name_stack (add_node kind g) = name_stack g"
  "nodes (add_node kind g) = nodes g @ [(name_stack g, kind)]"
  "names_in_use (add_node kind g) = names_in_use g"
  by (simp_all add: add_node_def)

lemma nodes_unique_name [simp]: "nodes (snd (unique_name n g)) = nodes g"
  by (simp add: unique_name_def Let_def)

lemma nodes_enter_scope [simp]: "nodes (enter_scope n g) = nodes g"
  by (simp add: enter_scope_def split: prod.splits) (metis nodes_unique_name snd_conv)

lemma unique_name_form:
  "\<exists>sfx. fst (unique_name n g) = qualify (name_stack g) n @ sfx"
  by (simp add: unique_name_def Let_def numbered_def)

lemma rejects_add_node [simp]: "rejects_scope n (add_node kind g) = rejects_scope n g"
  by (simp add: rejects_scope_def)

lemma validated_graph_simps [simp]:
  "name_stack (validated_graph gr) = name_stack gr"
  "nodes (validated_graph gr) =
     nodes gr @ [(name_stack (enter_scope ''validate_group_ndims'' gr), ''assert_non_negative'')]"
  by (simp_all add: validated_graph_def)

lemma validate_concrete_int:
  "validate_group_ndims (Concrete (PyInt i)) name gr =
     (if i < 0 then (Inl InvalidArgument, gr) else (Inr (Concrete (PyInt i)), gr))"
  by (simp add: build_defs)

lemma validate_concrete_nonintegral:
  "validate_group_ndims (Concrete (PyNonIntegral s)) name gr = (Inl InvalidArgument, gr)"
  by (simp add: build_defs)

lemma validate_symbolic:
  "validate_group_ndims (Symbolic dt t) name gr =
     (if rejects_scope (scope_name name ''validate_group_ndims'') gr then (Inl ValueError, gr)
      else if is_integer dt
      then (Inr (Symbolic dt (AssertNonNegative t)),
            (add_node ''assert_non_negative''
               (enter_scope (scope_name name ''validate_group_ndims'') gr))
              \<lparr>name_stack := name_stack gr\<rparr>)
      else (Inl InvalidArgument,
            (enter_scope (scope_name name ''validate_group_ndims'') gr)
              \<lparr>name_stack := name_stack gr\<rparr>))"
  by (simp add: build_defs Let_def)

lemma validate_symbolic_default:
  "validate_group_ndims (Symbolic dt t) None gr =
     (if is_integer dt
      then (Inr (Symbolic dt (AssertNonNegative t)), validated_graph gr)
      else (Inl InvalidArgument,
            (enter_scope ''validate_group_ndims'' gr)\<lparr>name_stack := name_stack gr\<rparr>))"
  by (simp add: validate_symbolic scope_name_def validated_graph_def)

lemma reduce_validation_failed:
  "validate_group_ndims c None gr = (Inl e, gr') \<Longrightarrow>
   reduce_group_ndims operation tensor c name gr = (Inl e, gr')"
  by (simp add: reduce_group_ndims_def then_do_def)

lemma reduce_concrete_int:
  "reduce_group_ndims operation tensor (Concrete (PyInt i)) name gr =
     (if i < 0 then (Inl InvalidArgument, gr)
      else if i = 0 then tf_name_scope name ''reduce_group_ndims'' (ret tensor) gr
      else tf_name_scope name ''reduce_group_ndims''
             (\<lambda>g. operation tensor (RangeT (Constant (Num (- i))) (Constant (Num 0)))
                    (add_node ''range'' g)) gr)"
  by (simp add: reduce_group_ndims_def validate_concrete_int then_do_def ret_def tf_range_def
        tf_name_scope_def Let_def)

lemma name_scope_returns:
  assumes "fst (tf_name_scope name d body g) = Inr r"
  shows "\<not> rejects_scope (scope_name name d) g \<and>
         fst (body (enter_scope (scope_name name d) g)) = Inr r"
  using assms by (auto simp: tf_name_scope_def Let_def split: if_splits prod.splits)

lemma reduce_symbolic:
  assumes "is_integer dt"
  shows "reduce_group_ndims operation tensor (Symbolic dt t) name gr =
     (if rejects_scope (scope_name name ''reduce_group_ndims'') gr
      then (Inl ValueError, validated_graph gr)
      else
        (case operation tensor (RangeT (Negate (AssertNonNegative t)) (Constant (Num 0)))
               (call_graph name gr) of
           (Inl e, g') \<Rightarrow> (Inl e, g'\<lparr>name_stack := name_stack gr\<rparr>)
         | (Inr r, g') \<Rightarrow>
             (Inr (Cond (Greater (AssertNonNegative t) (Constant (Num 0))) r tensor),
              (add_node ''Merge'' g')\<lparr>name_stack := name_stack gr\<rparr>)))"
proof (cases "operation tensor (RangeT (Negate (AssertNonNegative t)) (Constant (Num 0)))
             (call_graph name gr)")
  case (Pair x g')
  have rej: "rejects_scope n (validated_graph gr) = rejects_scope n gr" for n
    by (rule rejects_scope_cong) simp
  from Pair assms show ?thesis
    by (cases x)
      (simp_all add: reduce_group_ndims_def validate_symbolic_default then_do_def ret_def
        tf_range_def tf_name_scope_def tf_cond_def tf_greater_def tf_negative_def call_graph_def
        Let_def rej scope_name_def)
qed

lemma implements_reduce_sum: "implements tf_reduce_sum (reduce_sem (+) 0)"
  by (auto simp: implements_def tf_reduce_sum_def)

lemma implements_reduce_prod: "implements tf_reduce_prod (reduce_sem (*) 1)"
  by (auto simp: implements_def tf_reduce_prod_def)

subsection \<open>Evaluation of the examples\<close>

lemma upto_neg1: "[- 1..- 1] = [- 1::int]"
  by (simp add: upto.simps)

lemma reduce_sem_example:
  "reduce_sem (+) 0 (Arr [Arr [Num 1, Num 2], Arr [Num 3, Num 4]]) (Arr [Num (- 1)]) = Inr (Arr [Num 3, Num 7])"
  by (simp add: reduce_sem_def valid_axis_def normalize_axis_def)

lemmas scope_eval = enter_scope_def unique_name_def qualify_def lower_def lower_char_def
  empty_graph_def scope_name_def Let_def

lemma enter_validate_empty:
  "enter_scope ''validate_group_ndims'' empty_graph =
     \<lparr>nodes = [], name_stack = ''validate_group_ndims'',
      names_in_use = [(''validate_group_ndims'', 1)]\<rparr>"
  by (simp add: scope_eval)

lemma enter_reduce_empty:
  "enter_scope ''reduce_group_ndims'' empty_graph =
     \<lparr>nodes = [], name_stack = ''reduce_group_ndims'',
      names_in_use = [(''reduce_group_ndims'', 1)]\<rparr>"
  by (simp add: scope_eval)

lemma rejects_empty_graph [simp]:
  "\<not> rejects_scope ''my_scope'' empty_graph" "\<not> rejects_scope [] g"
  by (simp_all add: rejects_scope_def name_defs empty_graph_def)

subsection \<open>Scope paths\<close>

lemma within_refl [simp]: "within s s"
  by (simp add: within_def)

lemma within_root [simp]: "within [] p"
  by (simp add: within_def)

lemma within_trans:
  assumes "within a b" and "within b c"
  shows "within a c"
proof (cases "a = []")
  case True
  then show ?thesis by simp
next
  case False
  with assms(1) consider "b = a" | "prefix (a @ ''/'') b"
    by (auto simp: within_def)
  then show ?thesis
  proof cases
    case 1
    with assms(2) show ?thesis by simp
  next
    case 2
    then have "b \<noteq> []" by auto
    with assms(2) consider "c = b" | "prefix (b @ ''/'') c"
      by (auto simp: within_def)
    then show ?thesis
    proof cases
      case 1
      with 2 show ?thesis by (simp add: within_def)
    next
      case 2
      then have "prefix b c"
        by (meson prefix_order.trans prefixI)
      with \<open>prefix (a @ ''/'') b\<close> have "prefix (a @ ''/'') c"
        by (rule prefix_order.trans)
      then show ?thesis by (simp add: within_def)
    qed
  qed
qed

lemma within_qualify: "within s (qualify s n @ sfx)"
  by (simp add: within_def qualify_def)

lemma name_stack_enter_scope:
  "name_stack (enter_scope n g) =
     (if n = [] then [] else if last n = CHR ''/'' then butlast n else fst (unique_name n g))"
  by (simp add: enter_scope_def split: prod.splits)

lemma unique_name_cases:
  "fst (unique_name n g) = qualify (name_stack g) n \<or>
   (\<exists>j. fst (unique_name n g) = numbered (qualify (name_stack g) n) j)"
  by (auto simp: unique_name_def Let_def)

lemma enter_cond_within: "within (name_stack g) (name_stack (enter_scope ''cond'' g))"
  using unique_name_form [of "''cond''" g]
  by (auto simp: name_stack_enter_scope within_qualify)

lemma under_scope_outer:
  "within s s' \<Longrightarrow> list_all (under_scope s') ns \<Longrightarrow> list_all (under_scope s) ns"
  by (auto simp: list_all_iff under_scope_def intro: within_trans)

lemma scopedD:
  assumes "scoped operation"
  obtains new where "nodes (snd (operation t ax g)) = nodes g @ new"
    and "list_all (under_scope (name_stack g)) new"
    and "name_stack (snd (operation t ax g)) = name_stack g"
  using assms unfolding scoped_def by blast

lemma scoped_reduce_sum: "scoped tf_reduce_sum"
  by (simp add: scoped_def tf_reduce_sum_def under_scope_def)

lemma reduce_symbolic_example_nodes:
  "nodes (snd (reduce_group_ndims tf_reduce_sum (Constant (Arr [Num 1, Num 2]))
       (Symbolic DT_int32 (Placeholder ''g'')) (Some ''my_scope'') empty_graph)) =
     [(''validate_group_ndims'', ''assert_non_negative''),
      (''my_scope'', ''Greater''),
      (''my_scope/cond'', ''Switch''),
      (''my_scope/cond'', ''Neg''),
      (''my_scope/cond'', ''range''),
      (''my_scope/cond'', ''Sum''),
      (''my_scope/cond'', ''Merge'')]"
  by (simp add: reduce_symbolic call_graph_def validated_graph_def tf_reduce_sum_def
      scope_name_def name_stack_enter_scope unique_name_def qualify_def lower_def lower_char_def
      Let_def enter_scope_def)

lemma reduce_empty_name_example_nodes:
  "nodes (snd (reduce_group_ndims tf_reduce_sum (Constant (Arr [Num 1, Num 2]))
       (Concrete (PyInt 1)) (Some []) empty_graph)) = [([], ''range''), ([], ''Sum'')]"
  by (simp add: reduce_concrete_int tf_name_scope_def scope_name_def enter_scope_def
      tf_reduce_sum_def Let_def)

subsection \<open>Name scopes on examples\<close>

text \<open>
  A second call with no name finds \<open>reduce_group_ndims\<close> in use and opens
  \<open>reduce_group_ndims_1\<close>; a name TensorFlow does not accept raises \<open>ValueError\<close> before
  anything is inserted; a name ending in \<open>/\<close> opens that very scope, outside the scope
  that is open.
\<close>

lemma second_call_example:
  "nodes (snd (reduce_group_ndims tf_reduce_sum (Constant (Arr [Num 1, Num 2]))
       (Concrete (PyInt 1)) None
       (snd (reduce_group_ndims tf_reduce_sum (Constant (Arr [Num 1, Num 2]))
          (Concrete (PyInt 1)) None empty_graph)))) =
     [(''reduce_group_ndims'', ''range''), (''reduce_group_ndims'', ''Sum''),
      (''reduce_group_ndims_1'', ''range''), (''reduce_group_ndims_1'', ''Sum'')]"
  by (simp add: reduce_concrete_int tf_name_scope_def scope_name_def enter_scope_def
      unique_name_def qualify_def lower_def lower_char_def tf_reduce_sum_def Let_def
      find_free.simps numbered_def decimal.simps digit_def)

lemma invalid_name_example:
  "reduce_group_ndims tf_reduce_sum (Constant (Arr [Num 1, Num 2])) (Concrete (PyInt 1))
       (Some ''not a name'') empty_graph = (Inl ValueError, empty_graph)"
  by (simp add: reduce_concrete_int tf_name_scope_def scope_name_def rejects_scope_def name_defs
      Let_def)

lemma absolute_name_example:
  "nodes (snd (reduce_group_ndims tf_reduce_sum (Constant (Arr [Num 1, Num 2]))
       (Concrete (PyInt 1)) (Some ''top/'') (enter_scope ''outer'' empty_graph))) =
     [(''top'', ''range''), (''top'', ''Sum'')]"
  by (simp add: reduce_concrete_int tf_name_scope_def scope_name_def rejects_scope_def name_defs
      enter_scope_def unique_name_def qualify_def lower_def lower_char_def tf_reduce_sum_def
      Let_def)

section \<open>The validator\<close>

text \<open>
  Claim C4. A concrete integer that is not negative passes \<open>validate_group_ndims\<close> and
  is returned as it is, the graph untouched; and whenever the validation succeeds, the
  result is a tensor exactly when the input was one: concrete stays concrete, symbolic
  stays symbolic.
\<close>

theorem validate_returns_count:
  "(0 \<le> g \<longrightarrow>
      validate_group_ndims (Concrete (PyInt g)) name gr = (Inr (Concrete (PyInt g)), gr)) \<and>
   (validate_group_ndims c name gr = (Inr r, gr') \<longrightarrow> is_tensor_object r = is_tensor_object c)"
proof (intro conjI impI)
  assume "0 \<le> g"
  then show "validate_group_ndims (Concrete (PyInt g)) name gr = (Inr (Concrete (PyInt g)), gr)"
    by (simp add: validate_concrete_int)
next
  assume ok: "validate_group_ndims c name gr = (Inr r, gr')"
  show "is_tensor_object r = is_tensor_object c"
  proof (cases c)
    case (Concrete v)
    with ok show ?thesis
      by (cases v) (auto simp: validate_concrete_int validate_concrete_nonintegral split: if_splits)
  next
    case (Symbolic dt t)
    with ok show ?thesis
      by (auto simp: validate_symbolic split: if_splits)
  qed
qed

theorem validate_returns_count_witness:
  "(0::int) \<le> 3 \<and>
   validate_group_ndims (Concrete (PyInt 3)) None empty_graph = (Inr (Concrete (PyInt 3)), empty_graph) \<and>
   validate_group_ndims (Symbolic DT_int32 (Placeholder ''g'')) None empty_graph =
     (Inr (Symbolic DT_int32 (AssertNonNegative (Placeholder ''g''))),
      \<lparr>nodes = [(''validate_group_ndims'', ''assert_non_negative'')], name_stack = [],
       names_in_use = [(''validate_group_ndims'', 1)]\<rparr>) \<and>
   is_tensor_object (Symbolic DT_int32 (AssertNonNegative (Placeholder ''g'')))"
  using validate_returns_count [of 3 None empty_graph "Symbolic DT_int32 (Placeholder ''g'')"
      "Symbolic DT_int32 (AssertNonNegative (Placeholder ''g''))"
      "\<lparr>nodes = [(''validate_group_ndims'', ''assert_non_negative'')], name_stack = [],
        names_in_use = [(''validate_group_ndims'', 1)]\<rparr>"]
  by (simp add: validate_symbolic_default validated_graph_def enter_validate_empty add_node_def)

text \<open>
  Claim C5. A concrete count that is negative or not an integer makes
  \<open>validate_group_ndims\<close> fail with \<open>InvalidArgument\<close>, and \<open>reduce_group_ndims\<close>
  fails with the same error, whatever the operation is and with the graph as it was: no
  reduction has been attempted. More generally every failure of the validation of a count
  is the failure of \<open>reduce_group_ndims\<close>.
\<close>

theorem invalid_concrete_count_fails:
  assumes "\<not> non_negative_integer v"
  shows "validate_group_ndims (Concrete v) name gr = (Inl InvalidArgument, gr) \<and>
         reduce_group_ndims operation tensor (Concrete v) name' gr = (Inl InvalidArgument, gr) \<and>
         (\<forall>c e gr'. validate_group_ndims c None gr = (Inl e, gr') \<longrightarrow>
            reduce_group_ndims operation tensor c name' gr = (Inl e, gr'))"
proof -
  have v: "validate_group_ndims (Concrete v) n gr = (Inl InvalidArgument, gr)" for n
    using assms by (cases v) (simp_all add: validate_concrete_int validate_concrete_nonintegral)
  from v [of None]
  have "reduce_group_ndims operation tensor (Concrete v) name' gr = (Inl InvalidArgument, gr)"
    by (rule reduce_validation_failed)
  with v show ?thesis
    by (simp add: reduce_validation_failed)
qed

theorem invalid_concrete_count_fails_witness:
  "\<not> non_negative_integer (PyInt (- 1)) \<and>
   validate_group_ndims (Concrete (PyInt (- 1))) None empty_graph = (Inl InvalidArgument, empty_graph) \<and>
   reduce_group_ndims tf_reduce_sum (Constant (Arr [Num 1, Num 2])) (Concrete (PyInt (- 1))) None
       empty_graph =
     (Inl InvalidArgument, empty_graph)"
  using invalid_concrete_count_fails [of "PyInt (- 1)" None empty_graph tf_reduce_sum
      "Constant (Arr [Num 1, Num 2])" None]
  by simp

text \<open>
  Claim C7. A symbolic count whose declared type is not an integer type makes
  \<open>validate_group_ndims\<close>, and so \<open>reduce_group_ndims\<close>, fail with \<open>InvalidArgument\<close>
  while the graph is built: no node is inserted and nothing is left to the execution.
  (The scope of the validation is opened first; called with a name TensorFlow does not
  accept, \<open>validate_group_ndims\<close> fails with \<open>ValueError\<close> before the type is looked
  at. \<open>reduce_group_ndims\<close> calls it with no name.)
\<close>

theorem non_integer_tensor_fails_at_construction:
  assumes "\<not> is_integer dt"
  shows "fst (validate_group_ndims (Symbolic dt t) name gr) =
           (if rejects_scope (scope_name name ''validate_group_ndims'') gr
            then Inl ValueError else Inl InvalidArgument) \<and>
         nodes (snd (validate_group_ndims (Symbolic dt t) name gr)) = nodes gr \<and>
         fst (reduce_group_ndims operation tensor (Symbolic dt t) name' gr) = Inl InvalidArgument \<and>
         nodes (snd (reduce_group_ndims operation tensor (Symbolic dt t) name' gr)) = nodes gr"
proof -
  obtain gr' where v: "validate_group_ndims (Symbolic dt t) None gr = (Inl InvalidArgument, gr')"
    and n: "nodes gr' = nodes gr"
    using assms by (simp add: validate_symbolic_default)
  from v have "reduce_group_ndims operation tensor (Symbolic dt t) name' gr = (Inl InvalidArgument, gr')"
    by (rule reduce_validation_failed)
  with n assms show ?thesis
    by (simp add: validate_symbolic)
qed

theorem non_integer_tensor_fails_at_construction_witness:
  "\<not> is_integer DT_float32 \<and>
   validate_group_ndims (Symbolic DT_float32 (Placeholder ''g'')) None empty_graph =
     (Inl InvalidArgument,
      \<lparr>nodes = [], name_stack = [], names_in_use = [(''validate_group_ndims'', 1)]\<rparr>) \<and>
   reduce_group_ndims tf_reduce_sum (Constant (Arr [Num 1, Num 2]))
       (Symbolic DT_float32 (Placeholder ''g'')) None empty_graph =
     (Inl InvalidArgument,
      \<lparr>nodes = [], name_stack = [], names_in_use = [(''validate_group_ndims'', 1)]\<rparr>)"
  using non_integer_tensor_fails_at_construction [of DT_float32 "Placeholder ''g''" None empty_graph
      tf_reduce_sum "Constant (Arr [Num 1, Num 2])" None]
    reduce_validation_failed [of "Symbolic DT_float32 (Placeholder ''g'')" empty_graph InvalidArgument
      "\<lparr>nodes = [], name_stack = [], names_in_use = [(''validate_group_ndims'', 1)]\<rparr>"
      tf_reduce_sum "Constant (Arr [Num 1, Num 2])" None]
  by (simp add: validate_symbolic_default enter_validate_empty)

text \<open>
  Claim C9. For a concrete count \<open>validate_group_ndims\<close> leaves the graph as it was,
  whether it succeeds or fails: no node is inserted and no scope is opened (no name is
  recorded as in use). Its outcome does not depend on the name it is given.
\<close>

theorem validate_concrete_leaves_graph:
  "snd (validate_group_ndims (Concrete v) name gr) = gr \<and>
   validate_group_ndims (Concrete v) name gr = validate_group_ndims (Concrete v) name' gr"
  by (cases v) (simp_all add: validate_concrete_int validate_concrete_nonintegral)

section \<open>The reducer on a concrete count\<close>

text \<open>
  Claim C3. For the concrete count 0 \<open>reduce_group_ndims\<close> returns the tensor it was
  given, and the nodes of the graph are those that were there before the call (the scope
  of the function is opened and closed around nothing). Only a name TensorFlow does not
  accept makes the call fail, with \<open>ValueError\<close>; with no name it never does.
\<close>

theorem reduce_zero_returns_input:
  "fst (reduce_group_ndims operation tensor (Concrete (PyInt 0)) name gr) =
     (if rejects_scope (scope_name name ''reduce_group_ndims'') gr
      then Inl ValueError else Inr tensor) \<and>
   nodes (snd (reduce_group_ndims operation tensor (Concrete (PyInt 0)) name gr)) = nodes gr"
  by (simp add: reduce_concrete_int tf_name_scope_def ret_def Let_def)

text \<open>
  Claim C10. For the concrete count 0 the operation is not called: the call is the
  opening and closing of the scope of the function around the return of the tensor, in
  which the operation does not occur; so the outcome and the graph are the same whatever
  the operation is, also for one that raises or inserts nodes each time it is called.
\<close>

theorem reduce_zero_never_calls_operation:
  "reduce_group_ndims operation tensor (Concrete (PyInt 0)) name gr =
     tf_name_scope name ''reduce_group_ndims'' (ret tensor) gr \<and>
   reduce_group_ndims operation tensor (Concrete (PyInt 0)) name gr =
     reduce_group_ndims operation' tensor (Concrete (PyInt 0)) name gr"
  by (simp add: reduce_concrete_int)

text \<open>
  Claim C1. For a concrete count \<open>g > 0\<close> \<open>reduce_group_ndims\<close> is the call of the
  operation on the tensor and on the axis tensor \<open>tf.range(-g, 0)\<close>, made under the
  scope of the function: it returns what the operation returns and raises what it raises.
  The axis tensor evaluates to the last \<open>g\<close> axes in their order, \<open>[-g, ..., -1]\<close>;
  so when the operation computes \<open>f\<close>, the returned tensor evaluates to \<open>f\<close> of the
  value of the tensor and of these axes.
\<close>

theorem reduce_positive_applies_operation:
  assumes "0 < g"
  shows "reduce_group_ndims operation tensor (Concrete (PyInt g)) name gr =
           tf_name_scope name ''reduce_group_ndims''
             (\<lambda>gr'. operation tensor (RangeT (Constant (Num (- g))) (Constant (Num 0)))
                      (add_node ''range'' gr')) gr \<and>
         eval env (RangeT (Constant (Num (- g))) (Constant (Num 0))) = Inr (Arr (map Num [- g..- 1])) \<and>
         (implements operation f \<and>
          fst (reduce_group_ndims operation tensor (Concrete (PyInt g)) name gr) = Inr r \<longrightarrow>
            eval env r = (case eval env tensor of Inl e \<Rightarrow> Inl e
                          | Inr v \<Rightarrow> f v (Arr (map Num [- g..- 1]))))"
proof (intro conjI impI)
  show red: "reduce_group_ndims operation tensor (Concrete (PyInt g)) name gr =
           tf_name_scope name ''reduce_group_ndims''
             (\<lambda>gr'. operation tensor (RangeT (Constant (Num (- g))) (Constant (Num 0)))
                      (add_node ''range'' gr')) gr"
    using assms by (simp add: reduce_concrete_int)
  show "eval env (RangeT (Constant (Num (- g))) (Constant (Num 0))) = Inr (Arr (map Num [- g..- 1]))"
    by simp
  assume h: "implements operation f \<and>
          fst (reduce_group_ndims operation tensor (Concrete (PyInt g)) name gr) = Inr r"
  define G where "G = add_node ''range'' (enter_scope (scope_name name ''reduce_group_ndims'') gr)"
  from h red have "fst (tf_name_scope name ''reduce_group_ndims''
             (\<lambda>gr'. operation tensor (RangeT (Constant (Num (- g))) (Constant (Num 0)))
                      (add_node ''range'' gr')) gr) = Inr r"
    by simp
  from name_scope_returns [OF this]
  have "fst (operation tensor (RangeT (Constant (Num (- g))) (Constant (Num 0))) G) = Inr r"
    unfolding G_def by simp
  then obtain G' where "operation tensor (RangeT (Constant (Num (- g))) (Constant (Num 0))) G = (Inr r, G')"
    by (cases "operation tensor (RangeT (Constant (Num (- g))) (Constant (Num 0))) G") simp
  with h have "eval env r =
      eval env (OpNode f tensor (RangeT (Constant (Num (- g))) (Constant (Num 0))))"
    unfolding implements_def by blast
  then show "eval env r = (case eval env tensor of Inl e \<Rightarrow> Inl e
                          | Inr v \<Rightarrow> f v (Arr (map Num [- g..- 1])))"
    by (cases "eval env tensor") simp_all
qed

theorem reduce_positive_applies_operation_witness:
  "(0::int) < 1 \<and>
   implements tf_reduce_sum (reduce_sem (+) 0) \<and>
   reduce_group_ndims tf_reduce_sum (Constant (Arr [Arr [Num 1, Num 2], Arr [Num 3, Num 4]]))
       (Concrete (PyInt 1)) None empty_graph =
     (Inr (OpNode (reduce_sem (+) 0) (Constant (Arr [Arr [Num 1, Num 2], Arr [Num 3, Num 4]]))
             (RangeT (Constant (Num (- 1))) (Constant (Num 0)))),
      \<lparr>nodes = [(''reduce_group_ndims'', ''range''), (''reduce_group_ndims'', ''Sum'')],
       name_stack = [], names_in_use = [(''reduce_group_ndims'', 1)]\<rparr>) \<and>
   eval Map.empty (RangeT (Constant (Num (- 1))) (Constant (Num 0))) = Inr (Arr [Num (- 1)]) \<and>
   eval Map.empty
     (OpNode (reduce_sem (+) 0) (Constant (Arr [Arr [Num 1, Num 2], Arr [Num 3, Num 4]]))
        (RangeT (Constant (Num (- 1))) (Constant (Num 0)))) = Inr (Arr [Num 3, Num 7])"
  using reduce_positive_applies_operation [of 1 tf_reduce_sum
      "Constant (Arr [Arr [Num 1, Num 2], Arr [Num 3, Num 4]])" None empty_graph Map.empty
      "reduce_sem (+) 0"
      "OpNode (reduce_sem (+) 0) (Constant (Arr [Arr [Num 1, Num 2], Arr [Num 3, Num 4]]))
             (RangeT (Constant (Num (- 1))) (Constant (Num 0)))"]
    implements_reduce_sum
  by (simp add: tf_name_scope_def tf_reduce_sum_def add_node_def upto_neg1
      reduce_sem_example Let_def scope_name_def enter_reduce_empty)

section \<open>The reducer on a symbolic count\<close>

text \<open>
  Claim C2. For a symbolic count of an integer type, when the operation returns \<open>r\<close>
  for the call made while the graph is built, \<open>reduce_group_ndims\<close> returns the
  conditional whose branches are \<open>r\<close> and the tensor itself: both branches exist before
  any execution. Executed with the count 0 the conditional yields the value of the
  tensor; executed with a count \<open>k > 0\<close> it yields what the operation computes from the
  tensor and the axes \<open>[-k, ..., -1]\<close>. (Only a name TensorFlow does not accept keeps
  the conditional from being built; with no name this does not happen.)
\<close>

theorem reduce_symbolic_builds_conditional:
  assumes "is_integer dt"
    and "operation tensor (RangeT (Negate (AssertNonNegative t)) (Constant (Num 0)))
           (call_graph name gr) = (Inr r, g')"
    and "implements operation f"
  shows "fst (reduce_group_ndims operation tensor (Symbolic dt t) name gr) =
           (if rejects_scope (scope_name name ''reduce_group_ndims'') gr then Inl ValueError
            else Inr (Cond (Greater (AssertNonNegative t) (Constant (Num 0))) r tensor)) \<and>
         (\<forall>env. eval env t = Inr (Num 0) \<longrightarrow>
            eval env (Cond (Greater (AssertNonNegative t) (Constant (Num 0))) r tensor) =
            eval env tensor) \<and>
         (\<forall>env k. eval env t = Inr (Num k) \<and> 0 < k \<longrightarrow>
            eval env (Cond (Greater (AssertNonNegative t) (Constant (Num 0))) r tensor) =
            (case eval env tensor of Inl e \<Rightarrow> Inl e
             | Inr v \<Rightarrow> f v (Arr (map Num [- k..- 1]))))"
proof (intro conjI allI impI)
  show "fst (reduce_group_ndims operation tensor (Symbolic dt t) name gr) =
           (if rejects_scope (scope_name name ''reduce_group_ndims'') gr then Inl ValueError
            else Inr (Cond (Greater (AssertNonNegative t) (Constant (Num 0))) r tensor))"
    using assms(1,2) by (simp add: reduce_symbolic)
next
  fix env
  assume "eval env t = Inr (Num 0)"
  then show "eval env (Cond (Greater (AssertNonNegative t) (Constant (Num 0))) r tensor) =
      eval env tensor"
    by simp
next
  fix env k
  assume run: "eval env t = Inr (Num k) \<and> 0 < k"
  from assms(2,3)
  have "eval env r =
      eval env (OpNode f tensor (RangeT (Negate (AssertNonNegative t)) (Constant (Num 0))))"
    unfolding implements_def by blast
  moreover from run
  have "eval env (RangeT (Negate (AssertNonNegative t)) (Constant (Num 0))) =
      Inr (Arr (map Num [- k..- 1]))"
    by simp
  ultimately have "eval env r = (case eval env tensor of Inl e \<Rightarrow> Inl e
             | Inr v \<Rightarrow> f v (Arr (map Num [- k..- 1])))"
    by (cases "eval env tensor") simp_all
  with run
  show "eval env (Cond (Greater (AssertNonNegative t) (Constant (Num 0))) r tensor) =
            (case eval env tensor of Inl e \<Rightarrow> Inl e
             | Inr v \<Rightarrow> f v (Arr (map Num [- k..- 1])))"
    by simp
qed

theorem reduce_symbolic_builds_conditional_witness:
  "is_integer DT_int32 \<and>
   tf_reduce_sum (Constant (Arr [Arr [Num 1, Num 2], Arr [Num 3, Num 4]]))
       (RangeT (Negate (AssertNonNegative (Placeholder ''g''))) (Constant (Num 0)))
       (call_graph None empty_graph) =
     (Inr (OpNode (reduce_sem (+) 0) (Constant (Arr [Arr [Num 1, Num 2], Arr [Num 3, Num 4]]))
            (RangeT (Negate (AssertNonNegative (Placeholder ''g''))) (Constant (Num 0)))),
      add_node ''Sum'' (call_graph None empty_graph)) \<and>
   implements tf_reduce_sum (reduce_sem (+) 0) \<and>
   fst (reduce_group_ndims tf_reduce_sum (Constant (Arr [Arr [Num 1, Num 2], Arr [Num 3, Num 4]]))
          (Symbolic DT_int32 (Placeholder ''g'')) None empty_graph) =
     Inr (Cond (Greater (AssertNonNegative (Placeholder ''g'')) (Constant (Num 0)))
            (OpNode (reduce_sem (+) 0) (Constant (Arr [Arr [Num 1, Num 2], Arr [Num 3, Num 4]]))
               (RangeT (Negate (AssertNonNegative (Placeholder ''g''))) (Constant (Num 0))))
            (Constant (Arr [Arr [Num 1, Num 2], Arr [Num 3, Num 4]]))) \<and>
   eval [''g'' \<mapsto> Num 0] (Placeholder ''g'') = Inr (Num 0) \<and>
   eval [''g'' \<mapsto> Num 0]
     (Cond (Greater (AssertNonNegative (Placeholder ''g'')) (Constant (Num 0)))
            (OpNode (reduce_sem (+) 0) (Constant (Arr [Arr [Num 1, Num 2], Arr [Num 3, Num 4]]))
               (RangeT (Negate (AssertNonNegative (Placeholder ''g''))) (Constant (Num 0))))
            (Constant (Arr [Arr [Num 1, Num 2], Arr [Num 3, Num 4]]))) =
     Inr (Arr [Arr [Num 1, Num 2], Arr [Num 3, Num 4]]) \<and>
   eval [''g'' \<mapsto> Num 1] (Placeholder ''g'') = Inr (Num 1) \<and>
   eval [''g'' \<mapsto> Num 1]
     (Cond (Greater (AssertNonNegative (Placeholder ''g'')) (Constant (Num 0)))
            (OpNode (reduce_sem (+) 0) (Constant (Arr [Arr [Num 1, Num 2], Arr [Num 3, Num 4]]))
               (RangeT (Negate (AssertNonNegative (Placeholder ''g''))) (Constant (Num 0))))
            (Constant (Arr [Arr [Num 1, Num 2], Arr [Num 3, Num 4]]))) =
     Inr (Arr [Num 3, Num 7])"
  using reduce_symbolic_builds_conditional [of DT_int32 tf_reduce_sum
      "Constant (Arr [Arr [Num 1, Num 2], Arr [Num 3, Num 4]])" "Placeholder ''g''" None empty_graph
      "OpNode (reduce_sem (+) 0) (Constant (Arr [Arr [Num 1, Num 2], Arr [Num 3, Num 4]]))
            (RangeT (Negate (AssertNonNegative (Placeholder ''g''))) (Constant (Num 0)))"
      "add_node ''Sum'' (call_graph None empty_graph)"
      "reduce_sem (+) 0"]
    implements_reduce_sum
  by (simp add: tf_reduce_sum_def upto_neg1 reduce_sem_example scope_name_def)

text \<open>
  Claim C6. For a symbolic count of an integer type the validation and the construction
  succeed whatever value the count will have (the construction can only fail if the
  operation raises while its branch is built, or on a name TensorFlow does not accept).
  When the graph is executed with a negative count, the assertion inserted by the
  validation fails, and with it the execution of the returned tensor.
\<close>

theorem negative_runtime_count_fails_at_execution:
  assumes "is_integer dt"
    and "operation tensor (RangeT (Negate (AssertNonNegative t)) (Constant (Num 0)))
           (call_graph name gr) = (Inr r, g')"
  shows "fst (validate_group_ndims (Symbolic dt t) None gr) = Inr (Symbolic dt (AssertNonNegative t)) \<and>
         fst (reduce_group_ndims operation tensor (Symbolic dt t) name gr) =
           (if rejects_scope (scope_name name ''reduce_group_ndims'') gr then Inl ValueError
            else Inr (Cond (Greater (AssertNonNegative t) (Constant (Num 0))) r tensor)) \<and>
         (\<forall>env k. eval env t = Inr (Num k) \<and> k < 0 \<longrightarrow>
            eval env (AssertNonNegative t) = Inl RuntimeAssertionViolated \<and>
            eval env (Cond (Greater (AssertNonNegative t) (Constant (Num 0))) r tensor) =
              Inl RuntimeAssertionViolated)"
  using assms by (simp add: reduce_symbolic validate_symbolic_default)

theorem negative_runtime_count_fails_at_execution_witness:
  "is_integer DT_int32 \<and>
   fst (reduce_group_ndims tf_reduce_sum (Constant (Arr [Arr [Num 1, Num 2], Arr [Num 3, Num 4]]))
          (Symbolic DT_int32 (Placeholder ''g'')) None empty_graph) =
     Inr (Cond (Greater (AssertNonNegative (Placeholder ''g'')) (Constant (Num 0)))
            (OpNode (reduce_sem (+) 0) (Constant (Arr [Arr [Num 1, Num 2], Arr [Num 3, Num 4]]))
               (RangeT (Negate (AssertNonNegative (Placeholder ''g''))) (Constant (Num 0))))
            (Constant (Arr [Arr [Num 1, Num 2], Arr [Num 3, Num 4]]))) \<and>
   eval [''g'' \<mapsto> Num (- 2)] (Placeholder ''g'') = Inr (Num (- 2)) \<and>
   (- 2 :: int) < 0 \<and>
   eval [''g'' \<mapsto> Num (- 2)]
     (Cond (Greater (AssertNonNegative (Placeholder ''g'')) (Constant (Num 0)))
            (OpNode (reduce_sem (+) 0) (Constant (Arr [Arr [Num 1, Num 2], Arr [Num 3, Num 4]]))
               (RangeT (Negate (AssertNonNegative (Placeholder ''g''))) (Constant (Num 0))))
            (Constant (Arr [Arr [Num 1, Num 2], Arr [Num 3, Num 4]]))) =
     Inl RuntimeAssertionViolated"
  using negative_runtime_count_fails_at_execution [of DT_int32 tf_reduce_sum
      "Constant (Arr [Arr [Num 1, Num 2], Arr [Num 3, Num 4]])" "Placeholder ''g''" None empty_graph
      "OpNode (reduce_sem (+) 0) (Constant (Arr [Arr [Num 1, Num 2], Arr [Num 3, Num 4]]))
            (RangeT (Negate (AssertNonNegative (Placeholder ''g''))) (Constant (Num 0)))"
      "add_node ''Sum'' (call_graph None empty_graph)"]
  by (simp add: tf_reduce_sum_def scope_name_def)

section \<open>Name scopes\<close>

text \<open>
  Claim C8, as stated, fails. With the name \<open>my_scope\<close> supplied by the caller, the
  assertion node of the validation is inserted under the default scope
  \<open>validate_group_ndims\<close>, not under \<open>my_scope\<close>: \<open>reduce_group_ndims\<close> passes no
  name to \<open>validate_group_ndims\<close>. And with the empty name supplied by the caller, the
  nodes of the reduction are inserted at the root, under no named scope.
\<close>

theorem assertion_node_outside_caller_scope:
  "hd (nodes (snd (reduce_group_ndims tf_reduce_sum (Constant (Arr [Num 1, Num 2]))
       (Symbolic DT_int32 (Placeholder ''g'')) (Some ''my_scope'') empty_graph))) =
     (''validate_group_ndims'', ''assert_non_negative'') \<and>
   \<not> list_all (under_scope ''my_scope'')
       (nodes (snd (reduce_group_ndims tf_reduce_sum (Constant (Arr [Num 1, Num 2]))
          (Symbolic DT_int32 (Placeholder ''g'')) (Some ''my_scope'') empty_graph))) \<and>
   nodes (snd (reduce_group_ndims tf_reduce_sum (Constant (Arr [Num 1, Num 2]))
       (Concrete (PyInt 1)) (Some []) empty_graph)) = [([], ''range''), ([], ''Sum'')]"
  by (simp add: reduce_symbolic_example_nodes reduce_empty_name_example_nodes under_scope_def
      within_def)

text \<open>
  Claim C8, amended. Let the operation insert its nodes under the scope that is open
  when it is called. Then every node a call of \<open>reduce_group_ndims\<close> inserts lies under
  the scope TensorFlow opens for it: the assertion nodes of the delegated validation under
  the scope opened for the default name \<open>validate_group_ndims\<close>, whatever name the caller
  supplies; all other nodes under the scope opened for the caller's name, or for the
  default name \<open>reduce_group_ndims\<close> when the caller supplies none. The scope opened for
  a name that is not empty and does not end in \<open>/\<close> is a named scope: the name inside
  the enclosing scope, as it is or with a number appended when it is in use. For a name
  ending in \<open>/\<close> it is the scope of that path, not nested; for the empty name it is the
  root.
\<close>

theorem inserted_nodes_are_scoped:
  assumes "scoped operation"
  shows "(\<exists>nv nr.
     nodes (snd (validate_group_ndims c None gr)) = nodes gr @ nv \<and>
     nodes (snd (reduce_group_ndims operation tensor c name gr)) = nodes gr @ nv @ nr \<and>
     list_all (under_scope (name_stack (enter_scope ''validate_group_ndims'' gr))) nv \<and>
     list_all (under_scope (name_stack (enter_scope (scope_name name ''reduce_group_ndims'')
        (snd (validate_group_ndims c None gr))))) nr) \<and>
   (\<forall>n g. n \<noteq> [] \<and> last n \<noteq> CHR ''/'' \<longrightarrow>
      name_stack (enter_scope n g) = qualify (name_stack g) n \<or>
      (\<exists>j. name_stack (enter_scope n g) = numbered (qualify (name_stack g) n) j)) \<and>
   (\<forall>n g. n \<noteq> [] \<and> last n = CHR ''/'' \<longrightarrow> name_stack (enter_scope n g) = butlast n) \<and>
   (\<forall>g. name_stack (enter_scope [] g) = [])"
proof (intro conjI allI impI)
  fix n g
  assume "n \<noteq> [] \<and> last n \<noteq> CHR ''/''"
  then show "name_stack (enter_scope n g) = qualify (name_stack g) n \<or>
      (\<exists>j. name_stack (enter_scope n g) = numbered (qualify (name_stack g) n) j)"
    using unique_name_cases [of n g] by (simp add: name_stack_enter_scope)
next
  fix n g
  assume "n \<noteq> [] \<and> last n = CHR ''/''"
  then show "name_stack (enter_scope n g) = butlast n"
    by (simp add: name_stack_enter_scope)
next
  fix g
  show "name_stack (enter_scope [] g) = []"
    by (simp add: name_stack_enter_scope)
next
  define sv where "sv = name_stack (enter_scope ''validate_group_ndims'' gr)"
  define gv where "gv = snd (validate_group_ndims c None gr)"
  define n where "n = scope_name name ''reduce_group_ndims''"
  define s where "s = name_stack (enter_scope n gv)"
  have "\<exists>nv nr.
     nodes gv = nodes gr @ nv \<and>
     nodes (snd (reduce_group_ndims operation tensor c name gr)) = nodes gr @ nv @ nr \<and>
     list_all (under_scope sv) nv \<and> list_all (under_scope s) nr"
  proof -
    consider (bad) v where "c = Concrete v" "\<not> non_negative_integer v"
      | (zero) "c = Concrete (PyInt 0)"
      | (pos) i where "c = Concrete (PyInt i)" "0 < i"
      | (nonint) dt t where "c = Symbolic dt t" "\<not> is_integer dt"
      | (sym) dt t where "c = Symbolic dt t" "is_integer dt"
    proof (cases c)
      case (Concrete v)
      then show ?thesis
        by (cases v) (use that in force)+
    next
      case (Symbolic dt t)
      then show ?thesis using that by blast
    qed
    then show ?thesis
    proof cases
      case bad
      then have "validate_group_ndims c None gr = (Inl InvalidArgument, gr)"
        by (cases v) (simp_all add: validate_concrete_int validate_concrete_nonintegral)
      moreover from this
      have "reduce_group_ndims operation tensor c name gr = (Inl InvalidArgument, gr)"
        by (rule reduce_validation_failed)
      ultimately show ?thesis by (simp add: gv_def)
    next
      case zero
      then show ?thesis
        by (simp add: gv_def validate_concrete_int reduce_concrete_int tf_name_scope_def ret_def
            Let_def)
    next
      case pos
      then have gv: "gv = gr"
        by (simp add: gv_def validate_concrete_int)
      define G where "G = add_node ''range'' (enter_scope n gr)"
      define ax where "ax = RangeT (Constant (Num (- i))) (Constant (Num 0))"
      from assms obtain new where new: "nodes (snd (operation tensor ax G)) = nodes G @ new"
        "list_all (under_scope (name_stack G)) new"
        by (rule scopedD)
      have "nodes (snd (reduce_group_ndims operation tensor c name gr)) =
          (if rejects_scope n gr then nodes gr else nodes (snd (operation tensor ax G)))"
        using pos
        by (simp add: reduce_concrete_int tf_name_scope_def G_def ax_def n_def Let_def
            split: prod.splits)
      with new have "nodes (snd (reduce_group_ndims operation tensor c name gr)) =
          nodes gr @ [] @ (if rejects_scope n gr then [] else (s, ''range'') # new)"
        "list_all (under_scope s) (if rejects_scope n gr then [] else (s, ''range'') # new)"
        by (simp_all add: G_def s_def gv under_scope_def)
      moreover have "nodes gv = nodes gr @ []" "list_all (under_scope sv) []"
        by (simp_all add: gv)
      ultimately show ?thesis by blast
    next
      case nonint
      then obtain gr' where v: "validate_group_ndims c None gr = (Inl InvalidArgument, gr')"
        and nd: "nodes gr' = nodes gr"
        by (simp add: validate_symbolic_default)
      from v have "reduce_group_ndims operation tensor c name gr = (Inl InvalidArgument, gr')"
        by (rule reduce_validation_failed)
      with v nd show ?thesis by (simp add: gv_def)
    next
      case sym
      then have gv: "gv = validated_graph gr"
        by (simp add: gv_def validate_symbolic_default)
      define nv where "nv = [(sv, ''assert_non_negative'')]"
      have nv: "nodes gv = nodes gr @ nv" "list_all (under_scope sv) nv"
        by (simp_all add: gv nv_def sv_def under_scope_def)
      show ?thesis
      proof (cases "rejects_scope n gr")
        case True
        with sym have "nodes (snd (reduce_group_ndims operation tensor c name gr)) =
            nodes gr @ nv @ []"
          using nv(1) by (simp add: reduce_symbolic n_def gv)
        with nv show ?thesis by force
      next
        case False
        define g1 where "g1 = add_node ''Greater'' (enter_scope n gv)"
        define sc where "sc = name_stack (enter_scope ''cond'' g1)"
        define G where "G = call_graph name gr"
        define ax where "ax = RangeT (Negate (AssertNonNegative t)) (Constant (Num 0))"
        define pre where "pre = [(s, ''Greater''), (sc, ''Switch''), (sc, ''Neg''), (sc, ''range'')]"
        have G: "nodes G = nodes gr @ nv @ pre" "name_stack G = sc"
          using nv(1)
          by (simp_all add: G_def call_graph_def pre_def sc_def g1_def s_def n_def gv)
        have sc: "within s sc"
          using enter_cond_within [of g1] by (simp add: sc_def g1_def s_def)
        from assms obtain new where new: "nodes (snd (operation tensor ax G)) = nodes G @ new"
          "list_all (under_scope (name_stack G)) new"
          "name_stack (snd (operation tensor ax G)) = name_stack G"
          by (rule scopedD)
        have pre: "list_all (under_scope s) pre"
          using sc by (simp add: pre_def under_scope_def)
        from new(2) G(2) sc have new': "list_all (under_scope s) new"
          by (auto intro: under_scope_outer)
        have merge: "under_scope s (sc, ''Merge'')"
          using sc by (simp add: under_scope_def)
        have "\<exists>nr. nodes (snd (reduce_group_ndims operation tensor c name gr)) =
            nodes gr @ nv @ nr \<and> list_all (under_scope s) nr"
        proof (cases "operation tensor ax G")
          case (Pair x g')
          show ?thesis
          proof (cases x)
            case (Inl e)
            with Pair sym False new G
            have "nodes (snd (reduce_group_ndims operation tensor c name gr)) =
                nodes gr @ nv @ (pre @ new)"
              by (simp add: reduce_symbolic G_def [symmetric] ax_def [symmetric] n_def [symmetric])
            with pre new' show ?thesis
              by (intro exI [of _ "pre @ new"] conjI) simp_all
          next
            case (Inr r)
            with Pair sym False new G
            have "nodes (snd (reduce_group_ndims operation tensor c name gr)) =
                nodes gr @ nv @ (pre @ new @ [(sc, ''Merge'')])"
              by (simp add: reduce_symbolic G_def [symmetric] ax_def [symmetric] n_def [symmetric])
            with pre new' merge show ?thesis
              by (intro exI [of _ "pre @ new @ [(sc, ''Merge'')]"] conjI) simp_all
          qed
        qed
        with nv show ?thesis by blast
      qed
    qed
  qed
  then show "\<exists>nv nr.
     nodes (snd (validate_group_ndims c None gr)) = nodes gr @ nv \<and>
     nodes (snd (reduce_group_ndims operation tensor c name gr)) = nodes gr @ nv @ nr \<and>
     list_all (under_scope (name_stack (enter_scope ''validate_group_ndims'' gr))) nv \<and>
     list_all (under_scope (name_stack (enter_scope (scope_name name ''reduce_group_ndims'')
        (snd (validate_group_ndims c None gr))))) nr"
    by (simp add: sv_def gv_def n_def s_def)
qed

theorem inserted_nodes_are_scoped_witness:
  "scoped tf_reduce_sum \<and>
   nodes (snd (validate_group_ndims (Symbolic DT_int32 (Placeholder ''g'')) None empty_graph)) =
     [(''validate_group_ndims'', ''assert_non_negative'')] \<and>
   nodes (snd (reduce_group_ndims tf_reduce_sum (Constant (Arr [Num 1, Num 2]))
       (Symbolic DT_int32 (Placeholder ''g'')) (Some ''my_scope'') empty_graph)) =
     [(''validate_group_ndims'', ''assert_non_negative'')] @
     [(''my_scope'', ''Greater''), (''my_scope/cond'', ''Switch''), (''my_scope/cond'', ''Neg''),
      (''my_scope/cond'', ''range''), (''my_scope/cond'', ''Sum''), (''my_scope/cond'', ''Merge'')] \<and>
   name_stack (enter_scope ''validate_group_ndims'' empty_graph) = ''validate_group_ndims'' \<and>
   name_stack (enter_scope ''my_scope''
     (snd (validate_group_ndims (Symbolic DT_int32 (Placeholder ''g'')) None empty_graph))) =
     ''my_scope'' \<and>
   list_all (under_scope ''validate_group_ndims'')
     [(''validate_group_ndims'', ''assert_non_negative'')] \<and>
   list_all (under_scope ''my_scope'')
     [(''my_scope'', ''Greater''), (''my_scope/cond'', ''Switch''), (''my_scope/cond'', ''Neg''),
      (''my_scope/cond'', ''range''), (''my_scope/cond'', ''Sum''), (''my_scope/cond'', ''Merge'')]"
  using inserted_nodes_are_scoped [OF scoped_reduce_sum,
      of "Symbolic DT_int32 (Placeholder ''g'')" empty_graph "Constant (Arr [Num 1, Num 2])"
        "Some ''my_scope''"]
    scoped_reduce_sum
  by (simp add: reduce_symbolic_example_nodes validate_symbolic_default validated_graph_def
      name_stack_enter_scope unique_name_def qualify_def lower_def lower_char_def Let_def
      enter_scope_def under_scope_def within_def)

section \<open>The scenarios of the specification\<close>

lemma scenario_prod_zero:
  "reduce_group_ndims tf_reduce_prod (Constant (Arr [Arr [Num 1, Num 2], Arr [Num 3, Num 4]]))
       (Concrete (PyInt 0)) None empty_graph =
     (Inr (Constant (Arr [Arr [Num 1, Num 2], Arr [Num 3, Num 4]])),
      \<lparr>nodes = [], name_stack = [], names_in_use = [(''reduce_group_ndims'', 1)]\<rparr>)"
  by (simp add: reduce_concrete_int tf_name_scope_def ret_def scope_name_def Let_def
      enter_reduce_empty)

end
